theory Spec2Isabelle
  imports Complex_Main "HOL-Library.AList"
begin

section \<open>JavaScript numbers\<close>

text \<open>
  A JavaScript number is a finite value, one of the two infinities, or NaN. The finite
  values are taken as exact reals: rounding to binary64 (and to binary32 inside a
  \<^verbatim>\<open>Float32Array\<close>), overflow and the sign of zero are not modelled. Every
  divisor that can be zero in this program is a length, which is \<^verbatim>\<open>+0\<close>, so
  a non-zero finite value divided by zero takes the sign of the dividend.
\<close>

datatype jsnum = Num real | PInf | NInf | NaN

fun js_neg :: "jsnum \<Rightarrow> jsnum" where
  "js_neg (Num a) = Num (- a)"
| "js_neg PInf = NInf"
| "js_neg NInf = PInf"
| "js_neg NaN = NaN"

fun js_add :: "jsnum \<Rightarrow> jsnum \<Rightarrow> jsnum" where
  "js_add (Num a) (Num b) = Num (a + b)"
| "js_add NaN _ = NaN"
| "js_add _ NaN = NaN"
| "js_add PInf NInf = NaN"
| "js_add NInf PInf = NaN"
| "js_add PInf _ = PInf"
| "js_add _ PInf = PInf"
| "js_add NInf _ = NInf"
| "js_add _ NInf = NInf"

definition js_sub :: "jsnum \<Rightarrow> jsnum \<Rightarrow> jsnum" where
  "js_sub x y = js_add x (js_neg y)"

fun js_mul :: "jsnum \<Rightarrow> jsnum \<Rightarrow> jsnum" where
  "js_mul (Num a) (Num b) = Num (a * b)"
| "js_mul NaN _ = NaN"
| "js_mul _ NaN = NaN"
| "js_mul (Num a) y = (if a = 0 then NaN else if 0 < a then y else js_neg y)"
| "js_mul x (Num b) = (if b = 0 then NaN else if 0 < b then x else js_neg x)"
| "js_mul PInf y = y"
| "js_mul NInf y = js_neg y"

fun js_div :: "jsnum \<Rightarrow> jsnum \<Rightarrow> jsnum" where
  "js_div (Num a) (Num b) =
     (if b \<noteq> 0 then Num (a / b)
      else if a = 0 then NaN
      else if 0 < a then PInf else NInf)"
| "js_div NaN _ = NaN"
| "js_div _ NaN = NaN"
| "js_div (Num a) _ = Num 0"
| "js_div x (Num b) = (if 0 \<le> b then x else js_neg x)"
| "js_div _ _ = NaN"

fun js_abs :: "jsnum \<Rightarrow> jsnum" where
  "js_abs (Num a) = Num \<bar>a\<bar>"
| "js_abs PInf = PInf"
| "js_abs NInf = PInf"
| "js_abs NaN = NaN"

text \<open>The comparisons \<^verbatim>\<open>>\<close> and \<^verbatim>\<open>>=\<close>: false as soon as one side is NaN.\<close>

fun js_gt :: "jsnum \<Rightarrow> jsnum \<Rightarrow> bool" where
  "js_gt (Num a) (Num b) = (b < a)"
| "js_gt NaN _ = False"
| "js_gt _ NaN = False"
| "js_gt PInf y = (y \<noteq> PInf)"
| "js_gt NInf _ = False"
| "js_gt (Num a) y = (y = NInf)"

fun js_ge :: "jsnum \<Rightarrow> jsnum \<Rightarrow> bool" where
  "js_ge (Num a) (Num b) = (b \<le> a)"
| "js_ge NaN _ = False"
| "js_ge _ NaN = False"
| "js_ge PInf _ = True"
| "js_ge NInf y = (y = NInf)"
| "js_ge (Num a) y = (y = NInf)"

fun Math_max :: "jsnum \<Rightarrow> jsnum \<Rightarrow> jsnum" where
  "Math_max NaN _ = NaN"
| "Math_max _ NaN = NaN"
| "Math_max x y = (if js_ge x y then x else y)"

fun Math_min :: "jsnum \<Rightarrow> jsnum \<Rightarrow> jsnum" where
  "Math_min NaN _ = NaN"
| "Math_min _ NaN = NaN"
| "Math_min x y = (if js_ge y x then x else y)"

fun Math_sqrt :: "jsnum \<Rightarrow> jsnum" where
  "Math_sqrt (Num a) = (if a < 0 then NaN else Num (sqrt a))"
| "Math_sqrt PInf = PInf"
| "Math_sqrt NInf = NaN"
| "Math_sqrt NaN = NaN"

fun Math_log10 :: "jsnum \<Rightarrow> jsnum" where
  "Math_log10 (Num a) = (if a < 0 then NaN else if a = 0 then NInf else Num (log 10 a))"
| "Math_log10 PInf = PInf"
| "Math_log10 NInf = NaN"
| "Math_log10 NaN = NaN"

section \<open>Voice analysis (hook \<^verbatim>\<open>useVoiceAI\<close>)\<close>

datatype SpeakerType = Doctor | Patient | Auto

datatype error = AudioContextError | DecodeError | TypeError | SyntaxError | NetworkError

text \<open>\<^verbatim>\<open>VoiceProfile['features']\<close>; the \<^verbatim>\<open>weights\<close> object has the same seven keys.\<close>

record Features =
  avgPitch :: jsnum
  pitchVariance :: jsnum
  avgIntensity :: jsnum
  formantF1 :: jsnum
  formantF2 :: jsnum
  speechRate :: jsnum
  voiceQuality :: jsnum

record VoiceProfile =
  id' :: SpeakerType
  name :: SpeakerType
  features :: Features
  samples :: nat

record VoiceAnalysis =
  speaker :: SpeakerType
  confidence :: jsnum
  vfeatures :: Features

record Formants =
  f1 :: jsnum
  f2 :: jsnum

text \<open>
  The \<^verbatim>\<open>Map<string, VoiceProfile>\<close> keeps its keys in insertion order, and
  \<^verbatim>\<open>forEach\<close> visits them in that order: an association list with distinct
  keys, read with \<^const>\<open>map_of\<close> (\<^verbatim>\<open>get\<close>) and written with
  \<^const>\<open>AList.update\<close> (\<^verbatim>\<open>set\<close>: in place for a key that is present,
  at the end for a new one).
\<close>

type_synonym Profiles = "(SpeakerType \<times> VoiceProfile) list"

text \<open>
  \<^verbatim>\<open>calculatePitchOptimized\<close>: zero crossings of the first 2048 samples at most.
  The loop also adds up \<^verbatim>\<open>Math.abs(sample[i])\<close> in \<^verbatim>\<open>sum\<close>, which is
  never read.
\<close>

definition calculatePitchOptimized :: "jsnum list \<Rightarrow> jsnum" where
  "calculatePitchOptimized audioData =
     (let sampleSize = min 2048 (length audioData);
          sample = take sampleSize audioData;
          (sum, count) =
            fold (\<lambda>i (sum, count).
                    (js_add sum (js_abs (sample ! i)),
                     if js_ge (sample ! i) (Num 0) \<noteq> js_ge (sample ! (i - 1)) (Num 0)
                     then count + 1 else count))
                 [1..<length sample] (Num 0, 0::nat);
          crossingRate =
            js_div (Num (real count)) (js_div (Num (real sampleSize)) (Num 44100))
      in js_mul crossingRate (Num 0.5))"

definition calculateFormantsOptimized :: "jsnum list \<Rightarrow> Formants" where
  "calculateFormantsOptimized audioData =
     (let samples = take (min 1024 (length audioData)) audioData;
          sum = fold (\<lambda>i sum. js_add sum (js_abs (samples ! i))) [0..<length samples] (Num 0);
          avgAmplitude = js_div sum (Num (real (length samples)))
      in \<lparr>f1 = js_add (Num 500) (js_mul avgAmplitude (Num 300)),
          f2 = js_add (Num 1200) (js_mul avgAmplitude (Num 500))\<rparr>)"

text \<open>
  \<^verbatim>\<open>calculateSpeechRateOptimized\<close>: the loop runs over
  \<^verbatim>\<open>1 <= i < audioData.length - 1\<close>; on an empty buffer the bound is \<open>-1\<close>
  and the body never runs, as with the truncating subtraction here.
\<close>

definition calculateSpeechRateOptimized :: "jsnum list \<Rightarrow> jsnum" where
  "calculateSpeechRateOptimized audioData =
     (let threshold = Num 0.1;
          peakCount =
            fold (\<lambda>i peakCount.
                    if js_gt (audioData ! i) threshold
                       \<and> js_gt (audioData ! i) (audioData ! (i - 1))
                       \<and> js_gt (audioData ! i) (audioData ! (i + 1))
                    then peakCount + 1 else peakCount)
                 [1..<length audioData - 1] (0::nat);
          duration = js_div (Num (real (length audioData))) (Num 44100)
      in js_mul (js_div (Num (real peakCount)) duration) (Num 0.5))"

definition calculateIntensity :: "jsnum list \<Rightarrow> jsnum" where
  "calculateIntensity audioData =
     (let rms = Math_sqrt
                  (js_div (foldl (\<lambda>sum sample. js_add sum (js_mul sample sample)) (Num 0) audioData)
                          (Num (real (length audioData))))
      in js_mul (Num 20) (Math_log10 (js_add rms (Num (1 / 10 ^ 10)))))"

text \<open>
  \<^verbatim>\<open>extractVoiceFeatures\<close> throws when no audio context could be set up; the
  flag \<open>audioContext\<close> says whether \<^verbatim>\<open>initAudioContext\<close> left one in place.
\<close>

definition extractVoiceFeatures :: "bool \<Rightarrow> jsnum list \<Rightarrow> error + Features" where
  "extractVoiceFeatures audioContext audioData =
     (if \<not> audioContext then Inl AudioContextError
      else
        let pitch = calculatePitchOptimized audioData;
            intensity = calculateIntensity audioData;
            fs = calculateFormantsOptimized audioData;
            speechRate = calculateSpeechRateOptimized audioData;
            pitchVariance = js_mul pitch (Num 0.1);
            voiceQuality = (if js_gt intensity (Num (- 20)) then Num 0.8 else Num 0.4)
        in Inr \<lparr>avgPitch = pitch, pitchVariance = pitchVariance, avgIntensity = intensity,
                formantF1 = f1 fs, formantF2 = f2 fs, speechRate = speechRate,
                voiceQuality = voiceQuality\<rparr>)"

definition weights :: Features where
  "weights = \<lparr>avgPitch = Num 0.25, pitchVariance = Num 0.15, avgIntensity = Num 0.1,
              formantF1 = Num 0.2, formantF2 = Num 0.2, speechRate = Num 0.05,
              voiceQuality = Num 0.05\<rparr>"

definition calculateSimilarity :: "Features \<Rightarrow> Features \<Rightarrow> jsnum" where
  "calculateSimilarity features1 features2 =
     (let similarity = Num 0;
          similarity = js_add similarity (js_mul (avgPitch weights)
            (js_sub (Num 1) (js_div (js_abs (js_sub (avgPitch features1) (avgPitch features2))) (Num 400))));
          similarity = js_add similarity (js_mul (pitchVariance weights)
            (js_sub (Num 1) (js_div (js_abs (js_sub (pitchVariance features1) (pitchVariance features2))) (Num 100))));
          similarity = js_add similarity (js_mul (avgIntensity weights)
            (js_sub (Num 1) (js_div (js_abs (js_sub (avgIntensity features1) (avgIntensity features2))) (Num 60))));
          similarity = js_add similarity (js_mul (formantF1 weights)
            (js_sub (Num 1) (js_div (js_abs (js_sub (formantF1 features1) (formantF1 features2))) (Num 1000))));
          similarity = js_add similarity (js_mul (formantF2 weights)
            (js_sub (Num 1) (js_div (js_abs (js_sub (formantF2 features1) (formantF2 features2))) (Num 2000))));
          similarity = js_add similarity (js_mul (speechRate weights)
            (js_sub (Num 1) (js_div (js_abs (js_sub (speechRate features1) (speechRate features2))) (Num 10))));
          similarity = js_add similarity (js_mul (voiceQuality weights)
            (js_sub (Num 1) (js_abs (js_sub (voiceQuality features1) (voiceQuality features2)))))
      in Math_max (Num 0) (Math_min (Num 1) similarity))"

text \<open>
  The similarity as the specification words it: every term is clamped below at 0
  before it is weighted, with the scale 1 for the voice quality, and the sum is
  clamped to \<open>[0, 1]\<close>.
\<close>

definition spec_term :: "jsnum \<Rightarrow> jsnum \<Rightarrow> jsnum \<Rightarrow> jsnum \<Rightarrow> jsnum" where
  "spec_term w a b scale =
     js_mul w (Math_max (Num 0) (js_sub (Num 1) (js_div (js_abs (js_sub a b)) scale)))"

definition spec_similarity :: "Features \<Rightarrow> Features \<Rightarrow> jsnum" where
  "spec_similarity features1 features2 =
     Math_max (Num 0) (Math_min (Num 1)
       (js_add (js_add (js_add (js_add (js_add (js_add
          (spec_term (Num 0.25) (avgPitch features1) (avgPitch features2) (Num 400))
          (spec_term (Num 0.15) (pitchVariance features1) (pitchVariance features2) (Num 100)))
          (spec_term (Num 0.1) (avgIntensity features1) (avgIntensity features2) (Num 60)))
          (spec_term (Num 0.2) (formantF1 features1) (formantF1 features2) (Num 1000)))
          (spec_term (Num 0.2) (formantF2 features1) (formantF2 features2) (Num 2000)))
          (spec_term (Num 0.05) (speechRate features1) (speechRate features2) (Num 10)))
          (spec_term (Num 0.05) (voiceQuality features1) (voiceQuality features2) (Num 1))))"

text \<open>
  \<^verbatim>\<open>identifySpeaker\<close>. Reading the blob and decoding it are the browser's work:
  \<open>decoded\<close> is their outcome, the first channel's samples or the error thrown.
  Every error ends in the \<^verbatim>\<open>catch\<close> branch, which returns the neutral analysis.
\<close>

record BestMatch =
  match_speaker :: SpeakerType
  similarity :: jsnum

definition neutralAnalysis :: VoiceAnalysis where
  "neutralAnalysis =
     \<lparr>speaker = Auto, confidence = Num 0,
      vfeatures = \<lparr>avgPitch = Num 0, pitchVariance = Num 0, avgIntensity = Num 0,
                   formantF1 = Num 0, formantF2 = Num 0, speechRate = Num 0,
                   voiceQuality = Num 0\<rparr>\<rparr>"

definition compareProfile :: "Features \<Rightarrow> SpeakerType \<times> VoiceProfile \<Rightarrow> BestMatch \<Rightarrow> BestMatch" where
  "compareProfile feats entry bestMatch =
     (let profile = snd entry;
          sim = calculateSimilarity feats (features profile)
      in if js_gt sim (similarity bestMatch)
         then \<lparr>match_speaker = name profile, similarity = sim\<rparr>
         else bestMatch)"

definition identifySpeaker :: "bool \<Rightarrow> error + jsnum list \<Rightarrow> Profiles \<Rightarrow> VoiceAnalysis" where
  "identifySpeaker audioContext decoded voiceProfiles =
     (case (if \<not> audioContext then Inl AudioContextError else decoded) of
        Inl e \<Rightarrow> neutralAnalysis
      | Inr audioData \<Rightarrow>
          (case extractVoiceFeatures audioContext audioData of
             Inl e \<Rightarrow> neutralAnalysis
           | Inr feats \<Rightarrow>
               if length voiceProfiles = 0
               then \<lparr>speaker = Doctor, confidence = Num 0.7, vfeatures = feats\<rparr>
               else
                 let bestMatch = fold (compareProfile feats) voiceProfiles
                                   \<lparr>match_speaker = Auto, similarity = Num 0\<rparr>;
                     threshold = Num 0.4;
                     identifiedSpeaker =
                       (if js_gt (similarity bestMatch) threshold
                        then match_speaker bestMatch else Auto)
                 in \<lparr>speaker = identifiedSpeaker, confidence = similarity bestMatch,
                     vfeatures = feats\<rparr>))"

text \<open>
  \<^verbatim>\<open>learnVoice\<close>: \<open>updateProfiles\<close> is the function handed to
  \<^verbatim>\<open>setVoiceProfiles\<close>. A call made while learning is off, without an audio
  context, or whose decoding or extraction throws, leaves the store as it is.
\<close>

definition blend :: "jsnum \<Rightarrow> jsnum \<Rightarrow> jsnum \<Rightarrow> jsnum" where
  "blend weight old new =
     js_add (js_mul old (js_sub (Num 1) weight)) (js_mul new weight)"

definition updateProfiles :: "Features \<Rightarrow> SpeakerType \<Rightarrow> Profiles \<Rightarrow> Profiles" where
  "updateProfiles feats speakerType prev =
     (case map_of prev speakerType of
        Some existingProfile \<Rightarrow>
          let weight = Num 0.3;
              updatedFeatures =
                \<lparr>avgPitch = blend weight (avgPitch (features existingProfile)) (avgPitch feats),
                 pitchVariance = blend weight (pitchVariance (features existingProfile)) (pitchVariance feats),
                 avgIntensity = blend weight (avgIntensity (features existingProfile)) (avgIntensity feats),
                 formantF1 = blend weight (formantF1 (features existingProfile)) (formantF1 feats),
                 formantF2 = blend weight (formantF2 (features existingProfile)) (formantF2 feats),
                 speechRate = blend weight (speechRate (features existingProfile)) (speechRate feats),
                 voiceQuality = blend weight (voiceQuality (features existingProfile)) (voiceQuality feats)\<rparr>
          in AList.update speakerType
               (existingProfile\<lparr>features := updatedFeatures,
                                samples := samples existingProfile + 1\<rparr>) prev
      | None \<Rightarrow>
          AList.update speakerType
            \<lparr>id' = speakerType, name = speakerType, features = feats, samples = 1\<rparr> prev)"

definition learnVoice ::
  "bool \<Rightarrow> bool \<Rightarrow> error + jsnum list \<Rightarrow> SpeakerType \<Rightarrow> Profiles \<Rightarrow> Profiles" where
  "learnVoice isLearning audioContext decoded speakerType prev =
     (if \<not> isLearning then prev
      else if \<not> audioContext then prev
      else case decoded of
             Inl e \<Rightarrow> prev
           | Inr audioData \<Rightarrow>
               (case extractVoiceFeatures audioContext audioData of
                  Inl e \<Rightarrow> prev
                | Inr feats \<Rightarrow> updateProfiles feats speakerType prev))"

text \<open>
  The quantities the statements below speak of: the similarity of a stored entry to a
  feature vector, the greatest element of a list of numbers under \<^verbatim>\<open>>=\<close>, and
  the weighted average with the weights 0.7 and 0.3 written out.
\<close>

definition sim_of :: "Features \<Rightarrow> SpeakerType \<times> VoiceProfile \<Rightarrow> jsnum" where
  "sim_of feats entry = calculateSimilarity feats (features (snd entry))"

definition is_max :: "jsnum \<Rightarrow> jsnum list \<Rightarrow> bool" where
  "is_max m xs \<longleftrightarrow> m \<in> set xs \<and> list_all (js_ge m) xs"

definition mix :: "jsnum \<Rightarrow> jsnum \<Rightarrow> jsnum" where
  "mix old new = js_add (js_mul old (Num 0.7)) (js_mul new (Num 0.3))"

definition mixFeatures :: "Features \<Rightarrow> Features \<Rightarrow> Features" where
  "mixFeatures old new =
     \<lparr>avgPitch = mix (avgPitch old) (avgPitch new),
      pitchVariance = mix (pitchVariance old) (pitchVariance new),
      avgIntensity = mix (avgIntensity old) (avgIntensity new),
      formantF1 = mix (formantF1 old) (formantF1 new),
      formantF2 = mix (formantF2 old) (formantF2 new),
      speechRate = mix (speechRate old) (speechRate new),
      voiceQuality = mix (voiceQuality old) (voiceQuality new)\<rparr>"

section \<open>Strings\<close>

text \<open>
  A JavaScript string is a sequence of UTF-16 code units. \<open>str\<close> embeds an ASCII
  literal. \<^verbatim>\<open>String.prototype.trim\<close> removes the white space and line terminator
  code units of ECMAScript from both ends. A string is truthy when it is not empty.
\<close>

type_synonym jsstring = "nat list"

definition str :: "string \<Rightarrow> jsstring" where
  "str s = map of_char s"

definition WhiteSpace :: "nat \<Rightarrow> bool" where
  "WhiteSpace c \<longleftrightarrow>
     c \<in> {9, 10, 11, 12, 13, 32, 160, 5760, 8232, 8233, 8239, 8287, 12288, 65279}
     \<or> (8192 \<le> c \<and> c \<le> 8202)"

definition trim :: "jsstring \<Rightarrow> jsstring" where
  "trim s = rev (dropWhile WhiteSpace (rev (dropWhile WhiteSpace s)))"

section \<open>Alternation labelling (components \<^verbatim>\<open>Recorder\<close> and \<^verbatim>\<open>VideoCallCapture\<close>)\<close>

datatype Language = PT | EN

text \<open>\<^verbatim>\<open>getSpeakerPrefix\<close> of the recorder; \<open>0xE9\<close> is the e acute of the Portuguese label.\<close>

definition getSpeakerPrefix :: "SpeakerType \<Rightarrow> jsstring \<Rightarrow> Language \<Rightarrow> jsstring" where
  "getSpeakerPrefix spk patientName language =
     (case spk of
        Doctor \<Rightarrow> (if language = PT then str ''M'' @ [0xE9] @ str ''dico: '' else str ''Doctor: '')
      | Patient \<Rightarrow>
          (let name = (if trim patientName \<noteq> [] then trim patientName
                       else if language = PT then str ''Paciente'' else str ''Patient'')
           in name @ str '': '')
      | Auto \<Rightarrow> [0xD83E, 0xDD16, 0x20])"

text \<open>
  A recognition event: the result list (each result with the transcript of its first
  alternative) and the index of the first result that changed.
\<close>

record SpeechRecognitionResult =
  transcript :: jsstring
  isFinal :: bool

record RecognitionEvent =
  resultIndex :: nat
  results :: "SpeechRecognitionResult list"

text \<open>
  The loop at the head of both \<^verbatim>\<open>onresult\<close> handlers: the pair
  \<open>(interimTranscript, finalTranscript)\<close>. All the final results of one event are
  joined, each followed by a space, into one utterance.
\<close>

definition transcripts :: "RecognitionEvent \<Rightarrow> jsstring \<times> jsstring" where
  "transcripts event =
     fold (\<lambda>i (interimTranscript, finalTranscript).
             let t = transcript (results event ! i)
             in if isFinal (results event ! i)
                then (interimTranscript, finalTranscript @ t @ str '' '')
                else (interimTranscript @ t, finalTranscript))
          [resultIndex event..<length (results event)] ([], [])"

record Recorder =
  recording :: bool
  speechCount :: nat
  finalRef :: jsstring
  stream :: bool
  isProcessing :: bool
  lastSpeaker :: SpeakerType
  lastTranscript :: jsstring

text \<open>
  What one call of a handler shows outside: the label it assigned, if it assigned one,
  the transcript handed to \<^verbatim>\<open>onTranscriptChange\<close>, if it was called, and the
  speaker of the background learning task it started, if it started one.
\<close>

record Output =
  label :: "SpeakerType option"
  emitted :: "jsstring option"
  learning :: "SpeakerType option"

text \<open>
  \<^verbatim>\<open>rec.onresult\<close> of the recorder. \<^verbatim>\<open>processAudioInBackground\<close> sets
  \<^verbatim>\<open>isProcessingRef\<close> before its first \<^verbatim>\<open>await\<close>; the rest of it runs later
  (\<open>BackgroundDone\<close> below).
\<close>

definition onresult ::
  "Language \<Rightarrow> jsstring \<Rightarrow> RecognitionEvent \<Rightarrow> Recorder \<Rightarrow> Recorder \<times> Output" where
  "onresult language patientName event s =
     (let (interimTranscript, finalTranscript) = transcripts event
      in if finalTranscript \<noteq> [] then
           let trimmedText = trim finalTranscript
           in if trimmedText = lastTranscript s
              then (s, \<lparr>label = None, emitted = None, learning = None\<rparr>)
              else
                let speakerType = (if speechCount s mod 2 = 0 then Doctor else Patient);
                    speakerPrefix = getSpeakerPrefix speakerType patientName language;
                    formattedText = speakerPrefix @ trimmedText @ [10];
                    s1 = s\<lparr>lastTranscript := trimmedText,
                           speechCount := speechCount s + 1,
                           finalRef := finalRef s @ formattedText,
                           lastSpeaker := speakerType\<rparr>;
                    background = stream s1 \<and> \<not> isProcessing s1;
                    s2 = (if background then s1\<lparr>isProcessing := True\<rparr> else s1)
                in (s2, \<lparr>label = Some speakerType,
                         emitted = Some (finalRef s2 @ interimTranscript),
                         learning = (if background then Some speakerType else None)\<rparr>)
         else (s, \<lparr>label = None, emitted = Some (finalRef s @ interimTranscript),
                   learning = None\<rparr>))"




text \<open>The refs and state of a recorder that has just been mounted.\<close>

definition initial :: Recorder where
  "initial = \<lparr>recording = False, speechCount = 0, finalRef = [], stream = False,
               isProcessing = False, lastSpeaker = Auto, lastTranscript = []\<rparr>"

text \<open>
  A recording session: the recorder and the state of the voice hook it feeds. Between
  two recognition events a background learning task may end: the sample it captured
  (none when the capture gave nothing) goes to \<^const>\<open>learnVoice\<close> under the speaker
  the task was started with, and \<^verbatim>\<open>isProcessingRef\<close> is cleared.
\<close>

record Session =
  recorder :: Recorder
  voiceProfiles :: Profiles
  isLearning :: bool

datatype SessionEvent =
    Recognition RecognitionEvent
  | BackgroundDone SpeakerType "(error + jsnum list) option"

fun step ::
  "Language \<Rightarrow> jsstring \<Rightarrow> bool \<Rightarrow> SessionEvent \<Rightarrow> Session \<Rightarrow> Session \<times> Output list" where
  "step language patientName audioContext (Recognition event) \<sigma> =
     (let (s, out) = onresult language patientName event (recorder \<sigma>)
      in (\<sigma>\<lparr>recorder := s\<rparr>, [out]))"
| "step language patientName audioContext (BackgroundDone knownSpeaker audioBlob) \<sigma> =
     (let profiles = (case audioBlob of
                        None \<Rightarrow> voiceProfiles \<sigma>
                      | Some decoded \<Rightarrow>
                          learnVoice (isLearning \<sigma>) audioContext decoded knownSpeaker
                            (voiceProfiles \<sigma>))
      in (\<sigma>\<lparr>voiceProfiles := profiles,
             recorder := (recorder \<sigma>)\<lparr>isProcessing := False\<rparr>\<rparr>, []))"




record VideoCall =
  vc_speechCount :: nat
  vc_finalTranscript :: jsstring
  vc_lastTranscript :: jsstring


definition vc_reset :: "VideoCall \<Rightarrow> VideoCall" where
  "vc_reset s = s\<lparr>vc_speechCount := 0, vc_finalTranscript := [], vc_lastTranscript := []\<rparr>"



text \<open>
  The trimmed final text of an event, the label of the utterance counter \<open>c\<close>, and
  the lines a run of labelled utterances appends, counted from \<open>c\<close>.
\<close>

definition finalText :: "RecognitionEvent \<Rightarrow> jsstring" where
  "finalText event = trim (snd (transcripts event))"

definition turn :: "nat \<Rightarrow> SpeakerType" where
  "turn c = (if c mod 2 = 0 then Doctor else Patient)"






text \<open>
  An event that carries one final result, an event that carries one interim result, and
  a session on a recorder and a voice hook that have just been mounted.
\<close>

definition utterance :: "jsstring \<Rightarrow> RecognitionEvent" where
  "utterance t = \<lparr>resultIndex = 0, results = [\<lparr>transcript = t, isFinal = True\<rparr>]\<rparr>"



section \<open>History (module \<^verbatim>\<open>history.ts\<close>)\<close>

text \<open>
  The values of JavaScript that JSON text can stand for, and \<^verbatim>\<open>undefined\<close>.
  \<^verbatim>\<open>JSON.parse\<close> and \<^verbatim>\<open>JSON.stringify\<close> belong to the platform: the
  functions below take them as the two fields of \<open>J\<close>, the parser returning
  \<open>Inl SyntaxError\<close> where the platform's throws.
\<close>

datatype jsval =
    JUndefined
  | JNull
  | JBool bool
  | JNumber jsnum
  | JString jsstring
  | JArray "jsval list"
  | JObject "(jsstring \<times> jsval) list"

text \<open>Reading a property: \<^verbatim>\<open>undefined\<close> when the value has no such property.\<close>

fun property :: "jsval \<Rightarrow> jsstring \<Rightarrow> jsval" where
  "property (JObject kvs) k = (case map_of kvs k of Some x \<Rightarrow> x | None \<Rightarrow> JUndefined)"
| "property _ k = JUndefined"

record JSON =
  JSON_parse :: "jsstring \<Rightarrow> error + jsval"
  JSON_stringify :: "jsval \<Rightarrow> jsstring"

text \<open>
  The part of the browser window the module touches: the local storage, a map from
  keys to strings, and the number of \<^verbatim>\<open>history-updated\<close> events dispatched.
  Storage that refuses a write (quota) is not modelled.
\<close>

type_synonym Storage = "jsstring \<rightharpoonup> jsstring"

record Browser =
  localStorage :: Storage
  historyUpdated :: nat

definition KEY :: jsstring where
  "KEY = str ''mednote-history-v1''"

text \<open>
  \<^verbatim>\<open>loadHistory\<close>: \<^verbatim>\<open>getItem\<close> gives \<^verbatim>\<open>null\<close> for an absent key, and
  \<^verbatim>\<open>||\<close> replaces \<^verbatim>\<open>null\<close> and the empty string by \<^verbatim>\<open>'[]'\<close>; the
  \<^verbatim>\<open>catch\<close> turns a parse error into the empty array.
\<close>

definition loadHistory :: "JSON \<Rightarrow> Browser \<Rightarrow> error + jsval" where
  "loadHistory J w =
     (case JSON_parse J (case localStorage w KEY of
                           None \<Rightarrow> str ''[]''
                         | Some s \<Rightarrow> if s \<noteq> [] then s else str ''[]'') of
        Inl e \<Rightarrow> Inr (JArray [])
      | Inr v \<Rightarrow> Inr v)"

text \<open>\<^verbatim>\<open>arr.unshift(item)\<close>: a value that is not an array has no such method.\<close>

definition unshift :: "jsval \<Rightarrow> jsval \<Rightarrow> error + jsval" where
  "unshift arr item = (case arr of JArray xs \<Rightarrow> Inr (JArray (item # xs)) | _ \<Rightarrow> Inl TypeError)"

definition saveHistoryItem :: "JSON \<Rightarrow> jsval \<Rightarrow> Browser \<Rightarrow> error + Browser" where
  "saveHistoryItem J item w =
     (case loadHistory J w of
        Inl e \<Rightarrow> Inl e
      | Inr arr \<Rightarrow>
          (case unshift arr item of
             Inl e \<Rightarrow> Inl e
           | Inr arr' \<Rightarrow>
               Inr (w\<lparr>localStorage := (localStorage w)(KEY \<mapsto> JSON_stringify J arr'),
                       historyUpdated := historyUpdated w + 1\<rparr>)))"

definition clearHistory :: "Browser \<Rightarrow> Browser" where
  "clearHistory w = w\<lparr>localStorage := (localStorage w)(KEY := None),
                      historyUpdated := historyUpdated w + 1\<rparr>"

text \<open>
  The type \<^verbatim>\<open>DiagnosisResponse\<close> of \<^verbatim>\<open>types.ts\<close>, as a predicate on values:
  TypeScript checks it at compile time only, and nothing checks it at run time.
\<close>

fun isString :: "jsval \<Rightarrow> bool" where
  "isString (JString s) = True"
| "isString _ = False"

fun isStringArray :: "jsval \<Rightarrow> bool" where
  "isStringArray (JArray xs) = list_all isString xs"
| "isStringArray _ = False"

fun isDiagnosisResponse :: "jsval \<Rightarrow> bool" where
  "isDiagnosisResponse (JObject kvs) =
     (isString (property (JObject kvs) (str ''diagnosis''))
      \<and> isStringArray (property (JObject kvs) (str ''conditions''))
      \<and> isStringArray (property (JObject kvs) (str ''exams''))
      \<and> isStringArray (property (JObject kvs) (str ''medications''))
      \<and> (property (JObject kvs) (str ''explanation'') = JUndefined
         \<or> isString (property (JObject kvs) (str ''explanation'')))
      \<and> (property (JObject kvs) (str ''language'') = JString (str ''pt'')
         \<or> property (JObject kvs) (str ''language'') = JString (str ''en'')))"
| "isDiagnosisResponse _ = False"

text \<open>
  A diagnosis and its JSON text,
  \<^verbatim>\<open>{"diagnosis":"flu","conditions":[],"exams":[],"medications":[],"language":"en"}\<close>
  (code unit 34 is the double quote).
\<close>

definition quoted :: "jsstring \<Rightarrow> jsstring" where
  "quoted s = [34] @ s @ [34]"

definition exampleDiagnosis :: jsval where
  "exampleDiagnosis =
     JObject [(str ''diagnosis'', JString (str ''flu'')),
              (str ''conditions'', JArray []),
              (str ''exams'', JArray []),
              (str ''medications'', JArray []),
              (str ''language'', JString (str ''en''))]"

definition diagnosisText :: jsstring where
  "diagnosisText =
     str ''{'' @ quoted (str ''diagnosis'') @ str '':'' @ quoted (str ''flu'') @ str '',''
     @ quoted (str ''conditions'') @ str '':[],''
     @ quoted (str ''exams'') @ str '':[],''
     @ quoted (str ''medications'') @ str '':[],''
     @ quoted (str ''language'') @ str '':'' @ quoted (str ''en'') @ str ''}''"

text \<open>
  A fragment of the platform's JSON functions, enough to evaluate the examples below:
  the texts \<^verbatim>\<open>[]\<close>, \<^verbatim>\<open>{}\<close>, \<^verbatim>\<open>[1]\<close>, \<^verbatim>\<open>null\<close> and the text of
  the diagnosis above, and the values they stand for.
\<close>

definition fragmentJSON :: JSON where
  "fragmentJSON =
     \<lparr>JSON_parse = (\<lambda>s. if s = str ''[]'' then Inr (JArray [])
                          else if s = str ''{}'' then Inr (JObject [])
                          else if s = str ''[1]'' then Inr (JArray [JNumber (Num 1)])
                          else if s = str ''null'' then Inr JNull
                          else if s = diagnosisText then Inr exampleDiagnosis
                          else Inl SyntaxError),
      JSON_stringify = (\<lambda>v. if v = JArray [] then str ''[]''
                              else if v = JArray [JNumber (Num 1)] then str ''[1]''
                              else str ''{}'')\<rparr>"

definition emptyBrowser :: Browser where
  "emptyBrowser = \<lparr>localStorage = Map.empty, historyUpdated = 0\<rparr>"

section \<open>Diagnosis (component \<^verbatim>\<open>DiagnoseView\<close>)\<close>

text \<open>
  The props of the view, its state, and what the outside world does during one
  finalize action: whether \<^verbatim>\<open>streamDiagnose\<close> throws, the chunks the stream
  delivers before the timer fires, the outcome of the blocking
  \<^verbatim>\<open>diagnose\<close> request, and the identifier and time that
  \<^verbatim>\<open>crypto.randomUUID\<close> and \<^verbatim>\<open>Date.now\<close> give to the \<open>n\<close>-th saved item.
  The state counts the \<^verbatim>\<open>diagnose\<close> requests issued, the calls of
  \<^verbatim>\<open>saveAndReset\<close> and those of \<^verbatim>\<open>onFinalizeComplete\<close>.
\<close>

record Props =
  p_language :: Language
  p_transcript :: jsstring
  p_patientName :: "jsstring option"

record World =
  streamThrows :: bool
  chunks :: "jsstring list"
  response :: "error + jsval"
  stamp :: "nat \<Rightarrow> jsstring \<times> jsnum"

record View =
  loading :: bool
  result :: "jsval option"
  window :: Browser
  diagnoseRequests :: nat
  saves :: nat
  completions :: nat

definition historyItem :: "Props \<Rightarrow> jsstring \<times> jsnum \<Rightarrow> jsval \<Rightarrow> jsval" where
  "historyItem P idts json =
     JObject [(str ''id'', JString (fst idts)),
              (str ''timestamp'', JNumber (snd idts)),
              (str ''language'', JString (case p_language P of PT \<Rightarrow> str ''pt'' | EN \<Rightarrow> str ''en'')),
              (str ''transcript'', JString (p_transcript P)),
              (str ''result'', json),
              (str ''patientName'',
                 (case p_patientName P of None \<Rightarrow> JUndefined | Some n \<Rightarrow> JString n))]"

text \<open>
  The functions return the error that escapes them, if one does, and the state reached.
\<close>

definition saveAndReset ::
  "JSON \<Rightarrow> Props \<Rightarrow> World \<Rightarrow> jsval \<Rightarrow> View \<Rightarrow> error option \<times> View" where
  "saveAndReset J P W json v =
     (let v1 = v\<lparr>result := Some json, saves := saves v + 1\<rparr>;
          item = historyItem P (stamp W (saves v)) json
      in case saveHistoryItem J item (window v1) of
           Inl e \<Rightarrow> (Some e, v1)
         | Inr w \<Rightarrow>
             (None, v1\<lparr>window := w, completions := completions v1 + 1, loading := False\<rparr>))"

definition doFallbackRequest ::
  "JSON \<Rightarrow> Props \<Rightarrow> World \<Rightarrow> View \<Rightarrow> error option \<times> View" where
  "doFallbackRequest J P W v =
     (let v1 = v\<lparr>diagnoseRequests := diagnoseRequests v + 1\<rparr>
      in case response W of
           Inl e \<Rightarrow> (Some e, v1)
         | Inr json \<Rightarrow> saveAndReset J P W json v1)"

text \<open>
  The callback of the 8 second timer. Its \<^verbatim>\<open>try\<close> block holds the parse and the
  save: an error of either one is caught and leads on to the fallback request.
\<close>

definition onTimeout :: "JSON \<Rightarrow> Props \<Rightarrow> World \<Rightarrow> View \<Rightarrow> error option \<times> View" where
  "onTimeout J P W v =
     (let accumulatedData = fold (\<lambda>chunk accumulatedData. accumulatedData @ chunk) (chunks W) []
      in if accumulatedData \<noteq> [] then
           (case JSON_parse J accumulatedData of
              Inl parseError \<Rightarrow> doFallbackRequest J P W v
            | Inr parsedResult \<Rightarrow>
                (case saveAndReset J P W parsedResult v of
                   (None, v1) \<Rightarrow> (None, v1)
                 | (Some parseError, v1) \<Rightarrow> doFallbackRequest J P W v1))
         else doFallbackRequest J P W v)"

definition onFinalize :: "JSON \<Rightarrow> Props \<Rightarrow> World \<Rightarrow> View \<Rightarrow> error option \<times> View" where
  "onFinalize J P W v =
     (if trim (p_transcript P) = [] then (None, v)
      else
        let v1 = v\<lparr>loading := True, result := None\<rparr>
        in if streamThrows W then doFallbackRequest J P W v1
           else onTimeout J P W v1)"

text \<open>
  What a finalize action that went through leaves behind, from the state \<open>v\<close> to the
  state \<open>v'\<close>, when the history held the items \<open>xs\<close>: the result \<open>json\<close> shown in
  the view; one call of \<^verbatim>\<open>saveAndReset\<close>; the JSON text of \<open>item # xs\<close> stored
  under the key, for an item whose \<^verbatim>\<open>result\<close> is \<open>json\<close>, whose
  \<^verbatim>\<open>transcript\<close>, \<^verbatim>\<open>language\<close> and \<^verbatim>\<open>patientName\<close> are those of the props
  and whose \<^verbatim>\<open>id\<close> and \<^verbatim>\<open>timestamp\<close> are those the world gives; one
  \<^verbatim>\<open>history-updated\<close> event; one call of \<^verbatim>\<open>onFinalizeComplete\<close>; and the
  loading flag down.
\<close>

definition savedItem :: "Props \<Rightarrow> jsstring \<times> jsnum \<Rightarrow> jsval \<Rightarrow> jsval \<Rightarrow> bool" where
  "savedItem P idts json item \<longleftrightarrow>
     property item (str ''result'') = json
     \<and> property item (str ''transcript'') = JString (p_transcript P)
     \<and> property item (str ''language'') =
         JString (if p_language P = PT then str ''pt'' else str ''en'')
     \<and> property item (str ''patientName'') =
         (case p_patientName P of None \<Rightarrow> JUndefined | Some n \<Rightarrow> JString n)
     \<and> property item (str ''id'') = JString (fst idts)
     \<and> property item (str ''timestamp'') = JNumber (snd idts)"

definition persisted :: "JSON \<Rightarrow> Props \<Rightarrow> World \<Rightarrow> jsval list \<Rightarrow> jsval \<Rightarrow> View \<Rightarrow> View \<Rightarrow> bool" where
  "persisted J P W xs json v v' \<longleftrightarrow>
     result v' = Some json
     \<and> (\<exists>item. savedItem P (stamp W (saves v)) json item
           \<and> localStorage (window v') =
               (localStorage (window v))(KEY \<mapsto> JSON_stringify J (JArray (item # xs))))
     \<and> historyUpdated (window v') = historyUpdated (window v) + 1
     \<and> saves v' = saves v + 1
     \<and> completions v' = completions v + 1
     \<and> \<not> loading v'"

text \<open>The props, the state and the worlds of the examples below.\<close>

definition exampleProps :: Props where
  "exampleProps = \<lparr>p_language = EN, p_transcript = str ''Doctor: I see fever'',
                    p_patientName = None\<rparr>"

definition exampleView :: View where
  "exampleView = \<lparr>loading = False, result = None, window = emptyBrowser,
                   diagnoseRequests = 0, saves = 0, completions = 0\<rparr>"

definition exampleWorld :: "jsstring list \<Rightarrow> World" where
  "exampleWorld cs = \<lparr>streamThrows = False, chunks = cs, response = Inr exampleDiagnosis,
                       stamp = (\<lambda>n. (str ''id'', Num 0))\<rparr>"

section \<open>Properties of the voice analysis\<close>

subsection \<open>Auxiliary facts\<close>

lemma log10_tiny: "log 10 (1 / 10000000000) = - 10"
proof -
  have e: "(10000000000::real) = 10 ^ 10" by simp
  have "log 10 (10 ^ 10) = real 10" by (rule log_pow_cancel; simp)
  then have "log 10 10000000000 = 10" by (simp only: e)
  then show ?thesis by (simp add: log_divide)
qed

lemma extract_zero_aux:
  "extractVoiceFeatures True [Num 0] =
     Inr \<lparr>avgPitch = Num 0, pitchVariance = Num 0, avgIntensity = Num (- 200), formantF1 = Num 500,
          formantF2 = Num 1200, speechRate = Num 0, voiceQuality = Num 0.4\<rparr>"
  by (simp add: extractVoiceFeatures_def calculatePitchOptimized_def calculateIntensity_def
      calculateFormantsOptimized_def calculateSpeechRateOptimized_def Let_def log10_tiny)

lemma extract_empty_aux:
  "extractVoiceFeatures True [] =
     Inr \<lparr>avgPitch = NaN, pitchVariance = NaN, avgIntensity = NaN, formantF1 = NaN,
          formantF2 = NaN, speechRate = NaN, voiceQuality = Num 0.4\<rparr>"
  by (simp add: extractVoiceFeatures_def calculatePitchOptimized_def calculateIntensity_def
      calculateFormantsOptimized_def calculateSpeechRateOptimized_def Let_def)

lemma clamp_Num:
  "Math_max (Num 0) (Math_min (Num 1) (Num v)) = Num (max 0 (min 1 v))"
  by (auto simp: max_def min_def)

lemma sim_finite:
  "calculateSimilarity
     \<lparr>avgPitch = Num p1, pitchVariance = Num v1, avgIntensity = Num i1, formantF1 = Num a1,
      formantF2 = Num b1, speechRate = Num r1, voiceQuality = Num q1\<rparr>
     \<lparr>avgPitch = Num p2, pitchVariance = Num v2, avgIntensity = Num i2, formantF1 = Num a2,
      formantF2 = Num b2, speechRate = Num r2, voiceQuality = Num q2\<rparr>
   = Num (max 0 (min 1
       (0.25 * (1 - \<bar>p1 - p2\<bar> / 400) + 0.15 * (1 - \<bar>v1 - v2\<bar> / 100)
        + 0.1 * (1 - \<bar>i1 - i2\<bar> / 60) + 0.2 * (1 - \<bar>a1 - a2\<bar> / 1000)
        + 0.2 * (1 - \<bar>b1 - b2\<bar> / 2000) + 0.05 * (1 - \<bar>r1 - r2\<bar> / 10)
        + 0.05 * (1 - \<bar>q1 - q2\<bar>))))"
  unfolding calculateSimilarity_def weights_def Let_def js_sub_def
  by (simp only: Features.simps js_neg.simps js_add.simps js_abs.simps js_div.simps js_mul.simps clamp_Num) simp

lemma sim_range:
  "calculateSimilarity a b = NaN \<or> (\<exists>r. calculateSimilarity a b = Num r \<and> 0 \<le> r \<and> r \<le> 1)"
proof -
  have "Math_max (Num 0) (Math_min (Num 1) x) = NaN
        \<or> (\<exists>r. Math_max (Num 0) (Math_min (Num 1) x) = Num r \<and> 0 \<le> r \<and> r \<le> 1)" for x
    by (cases x) auto
  then show ?thesis unfolding calculateSimilarity_def Let_def by blast
qed

lemma js_ge_neq_gt: "js_ge x y \<Longrightarrow> x \<noteq> y \<Longrightarrow> js_gt x y"
  by (cases x; cases y) auto

lemma js_ge_not_gt: "js_ge x y \<Longrightarrow> \<not> js_gt y x"
  by (cases x; cases y) auto


lemma fold_keep:
  "\<forall>e \<in> set ps. js_ge (similarity b) (sim_of feats e) \<Longrightarrow> fold (compareProfile feats) ps b = b"
  by (induction ps arbitrary: b) (auto simp: compareProfile_def sim_of_def Let_def dest: js_ge_not_gt)

lemma fold_best:
  "\<forall>e \<in> set ps. js_ge m (sim_of feats e) \<Longrightarrow> m \<in> sim_of feats ` set ps \<Longrightarrow> js_gt m (similarity b) \<Longrightarrow>
   \<exists>e. find (\<lambda>e. sim_of feats e = m) ps = Some e \<and>
     fold (compareProfile feats) ps b = \<lparr>match_speaker = name (snd e), similarity = m\<rparr>"
proof (induction ps arbitrary: b)
  case Nil
  then show ?case by simp
next
  case (Cons e ps)
  show ?case
  proof (cases "sim_of feats e = m")
    case True
    let ?b1 = "\<lparr>match_speaker = name (snd e), similarity = m\<rparr>"
    from True Cons.prems(3) have step: "compareProfile feats e b = ?b1"
      by (simp add: compareProfile_def sim_of_def Let_def)
    from Cons.prems(1) have "\<forall>e \<in> set ps. js_ge (similarity ?b1) (sim_of feats e)" by simp
    then have "fold (compareProfile feats) ps ?b1 = ?b1" by (rule fold_keep)
    with step True show ?thesis by simp
  next
    case False
    with Cons.prems(2) have mem: "m \<in> sim_of feats ` set ps" by auto
    from Cons.prems(1) have ge: "js_ge m (sim_of feats e)" and rest: "\<forall>e \<in> set ps. js_ge m (sim_of feats e)"
      by simp_all
    from ge False have gt: "js_gt m (sim_of feats e)" by (auto intro: js_ge_neq_gt)
    have "js_gt m (similarity (compareProfile feats e b))"
      using gt Cons.prems(3) by (simp add: compareProfile_def sim_of_def Let_def)
    from Cons.IH[OF rest mem this] False show ?thesis by simp
  qed
qed

lemma is_max_iff: "is_max m xs \<longleftrightarrow> m \<in> set xs \<and> (\<forall>s \<in> set xs. js_ge m s)"
  by (simp add: is_max_def list_all_iff)

lemma blend_mix: "blend (Num 0.3) old new = mix old new"
  by (simp add: blend_def mix_def js_sub_def)

subsection \<open>The feature extractor on an empty buffer\<close>

text \<open>
  Claim C4, as amended. On an empty sample buffer the extractor does not throw (given an
  audio context), but the vector it returns is not zero-valued: every ratio over the
  buffer length is \<open>0 / 0\<close>, so the six measured fields are NaN, and the voice quality
  is 0.4 because \<^verbatim>\<open>NaN > -20\<close> is false.
\<close>

theorem extractVoiceFeatures_empty:
  "extractVoiceFeatures True [] =
     Inr \<lparr>avgPitch = NaN, pitchVariance = NaN, avgIntensity = NaN, formantF1 = NaN,
          formantF2 = NaN, speechRate = NaN, voiceQuality = Num 0.4\<rparr>"
  by (rule extract_empty_aux)

text \<open>
  Claim C4 as stated fails: the vector returned for the empty buffer is not the one
  whose fields are all zero.
\<close>

theorem extractVoiceFeatures_empty_not_zero:
  "extractVoiceFeatures True [] \<noteq>
     Inr \<lparr>avgPitch = Num 0, pitchVariance = Num 0, avgIntensity = Num 0, formantF1 = Num 0,
          formantF2 = Num 0, speechRate = Num 0, voiceQuality = Num 0\<rparr>"
  by (simp add: extract_empty_aux)

subsection \<open>The similarity\<close>

text \<open>
  Claim C2, as amended. On finite feature vectors the similarity is the weighted sum of
  the terms \<open>1 - |f1 - f2| / scale\<close>, with the weights 0.25, 0.15, 0.10, 0.20, 0.20,
  0.05, 0.05 and the scales 400, 100, 60, 1000, 2000, 10, 1; no term is clamped on its
  own, a term is negative when the two values differ by more than the scale, and only
  the sum is clamped to \<open>[0, 1]\<close>.
\<close>

theorem calculateSimilarity_unclamped_terms:
  "calculateSimilarity
     \<lparr>avgPitch = Num p1, pitchVariance = Num v1, avgIntensity = Num i1, formantF1 = Num a1,
      formantF2 = Num b1, speechRate = Num r1, voiceQuality = Num q1\<rparr>
     \<lparr>avgPitch = Num p2, pitchVariance = Num v2, avgIntensity = Num i2, formantF1 = Num a2,
      formantF2 = Num b2, speechRate = Num r2, voiceQuality = Num q2\<rparr>
   = Num (max 0 (min 1
       (0.25 * (1 - \<bar>p1 - p2\<bar> / 400) + 0.15 * (1 - \<bar>v1 - v2\<bar> / 100)
        + 0.1 * (1 - \<bar>i1 - i2\<bar> / 60) + 0.2 * (1 - \<bar>a1 - a2\<bar> / 1000)
        + 0.2 * (1 - \<bar>b1 - b2\<bar> / 2000) + 0.05 * (1 - \<bar>r1 - r2\<bar> / 10)
        + 0.05 * (1 - \<bar>q1 - q2\<bar>))))"
  by (rule sim_finite)

text \<open>
  Claim C2 as stated fails: for two vectors that differ only in a pitch 800 apart the
  code gives 0.5, where the sum of terms clamped below at 0 gives 0.75.
\<close>

theorem calculateSimilarity_not_termwise_clamped:
  "calculateSimilarity
     \<lparr>avgPitch = Num 0, pitchVariance = Num 0, avgIntensity = Num 0, formantF1 = Num 0,
      formantF2 = Num 0, speechRate = Num 0, voiceQuality = Num 0\<rparr>
     \<lparr>avgPitch = Num 800, pitchVariance = Num 0, avgIntensity = Num 0, formantF1 = Num 0,
      formantF2 = Num 0, speechRate = Num 0, voiceQuality = Num 0\<rparr> = Num 0.5
   \<and> spec_similarity
     \<lparr>avgPitch = Num 0, pitchVariance = Num 0, avgIntensity = Num 0, formantF1 = Num 0,
      formantF2 = Num 0, speechRate = Num 0, voiceQuality = Num 0\<rparr>
     \<lparr>avgPitch = Num 800, pitchVariance = Num 0, avgIntensity = Num 0, formantF1 = Num 0,
      formantF2 = Num 0, speechRate = Num 0, voiceQuality = Num 0\<rparr> = Num 0.75"
  by (simp add: sim_finite spec_similarity_def spec_term_def js_sub_def)

subsection \<open>Classification\<close>

text \<open>
  Claim C7. Whenever the extraction succeeds and the profile store is empty,
  \<^verbatim>\<open>identifySpeaker\<close> returns the speaker \<open>doctor\<close> with confidence 0.7 (and the
  extracted features).
\<close>

theorem identifySpeaker_cold_start:
  assumes "extractVoiceFeatures audioContext audioData = Inr feats"
  shows "identifySpeaker audioContext (Inr audioData) [] =
           \<lparr>speaker = Doctor, confidence = Num 0.7, vfeatures = feats\<rparr>"
proof -
  from assms have "audioContext" by (auto simp: extractVoiceFeatures_def split: if_splits)
  with assms show ?thesis by (simp add: identifySpeaker_def)
qed

theorem identifySpeaker_cold_start_witness:
  "extractVoiceFeatures True [Num 0] =
     Inr \<lparr>avgPitch = Num 0, pitchVariance = Num 0, avgIntensity = Num (- 200), formantF1 = Num 500,
          formantF2 = Num 1200, speechRate = Num 0, voiceQuality = Num 0.4\<rparr>
   \<and> identifySpeaker True (Inr [Num 0]) [] =
       \<lparr>speaker = Doctor, confidence = Num 0.7,
        vfeatures = \<lparr>avgPitch = Num 0, pitchVariance = Num 0, avgIntensity = Num (- 200),
                     formantF1 = Num 500, formantF2 = Num 1200, speechRate = Num 0,
                     voiceQuality = Num 0.4\<rparr>\<rparr>"
  using identifySpeaker_cold_start [OF extract_zero_aux] extract_zero_aux by simp

text \<open>
  Claim C8. For a store that is not empty, let \<open>r\<close> be the greatest similarity of the
  stored profiles to the extracted vector. The confidence returned is \<open>r\<close>; the speaker
  is \<open>auto\<close> when \<open>r \<le> 0.4\<close>, and the name of the first profile of similarity \<open>r\<close>
  when \<open>r > 0.4\<close>.
\<close>

theorem identifySpeaker_threshold:
  assumes ex: "extractVoiceFeatures audioContext audioData = Inr feats"
      and ne: "store \<noteq> []"
      and mx: "is_max (Num r) (map (sim_of feats) store)"
  shows "confidence (identifySpeaker audioContext (Inr audioData) store) = Num r
       \<and> (r \<le> 0.4 \<longrightarrow> speaker (identifySpeaker audioContext (Inr audioData) store) = Auto)
       \<and> (0.4 < r \<longrightarrow>
            (\<exists>e. find (\<lambda>e. sim_of feats e = Num r) store = Some e
                \<and> speaker (identifySpeaker audioContext (Inr audioData) store)
                    = name (snd e)))"
proof -
  let ?init = "\<lparr>match_speaker = Auto, similarity = Num 0\<rparr>"
  let ?best = "fold (compareProfile feats) store ?init"
  from ex have ctx: "audioContext" by (auto simp: extractVoiceFeatures_def split: if_splits)
  have unfold: "identifySpeaker audioContext (Inr audioData) store =
      \<lparr>speaker = (if js_gt (similarity ?best) (Num 0.4) then match_speaker ?best else Auto),
       confidence = similarity ?best, vfeatures = feats\<rparr>"
    using ex ctx ne by (simp add: identifySpeaker_def Let_def)
  from mx have mem: "Num r \<in> sim_of feats ` set store"
    and ge: "\<forall>e \<in> set store. js_ge (Num r) (sim_of feats e)"
    by (auto simp: is_max_iff)
  from mem obtain e0 where "sim_of feats e0 = Num r" by auto
  with sim_range [of feats "features (snd e0)"] have r0: "0 \<le> r" by (auto simp: sim_of_def)
  show ?thesis
  proof (cases "r = 0")
    case True
    with ge have "\<forall>e \<in> set store. js_ge (similarity ?init) (sim_of feats e)" by simp
    then have "?best = ?init" by (rule fold_keep)
    with unfold True show ?thesis by simp
  next
    case False
    with r0 have "js_gt (Num r) (similarity ?init)" by simp
    from fold_best [OF ge mem this] obtain e
      where "find (\<lambda>e. sim_of feats e = Num r) store = Some e"
        and "?best = \<lparr>match_speaker = name (snd e), similarity = Num r\<rparr>" by blast
    with unfold show ?thesis by simp
  qed
qed

theorem identifySpeaker_threshold_witness:
  "(let f0 = \<lparr>avgPitch = Num 0, pitchVariance = Num 0, avgIntensity = Num (- 200),
              formantF1 = Num 500, formantF2 = Num 1200, speechRate = Num 0,
              voiceQuality = Num 0.4\<rparr>;
        d = (Doctor, \<lparr>id' = Doctor, name = Doctor,
                      features = \<lparr>avgPitch = Num 400, pitchVariance = Num 100,
                                  avgIntensity = Num (- 200), formantF1 = Num 1500,
                                  formantF2 = Num 1200, speechRate = Num 0,
                                  voiceQuality = Num 0.4\<rparr>,
                      samples = 2\<rparr>);
        p = (Patient, \<lparr>id' = Patient, name = Patient, features = f0, samples = 5\<rparr>)
    in extractVoiceFeatures True [Num 0] = Inr f0
     \<and> is_max (Num 0.4) (map (sim_of f0) [d])
     \<and> confidence (identifySpeaker True (Inr [Num 0]) [d]) = Num 0.4
     \<and> speaker (identifySpeaker True (Inr [Num 0]) [d]) = Auto
     \<and> is_max (Num 1) (map (sim_of f0) [d, p])
     \<and> confidence (identifySpeaker True (Inr [Num 0]) [d, p]) = Num 1
     \<and> speaker (identifySpeaker True (Inr [Num 0]) [d, p]) = Patient)"
proof -
  let ?f0 = "\<lparr>avgPitch = Num 0, pitchVariance = Num 0, avgIntensity = Num (- 200),
              formantF1 = Num 500, formantF2 = Num 1200, speechRate = Num 0,
              voiceQuality = Num 0.4\<rparr>"
  let ?d = "(Doctor, \<lparr>id' = Doctor, name = Doctor,
                      features = \<lparr>avgPitch = Num 400, pitchVariance = Num 100,
                                  avgIntensity = Num (- 200), formantF1 = Num 1500,
                                  formantF2 = Num 1200, speechRate = Num 0,
                                  voiceQuality = Num 0.4\<rparr>,
                      samples = 2\<rparr>)"
  let ?p = "(Patient, \<lparr>id' = Patient, name = Patient, features = ?f0, samples = 5\<rparr>)"
  have sd: "sim_of ?f0 ?d = Num 0.4" by (simp add: sim_of_def sim_finite)
  have sp: "sim_of ?f0 ?p = Num 1" by (simp add: sim_of_def sim_finite)
  have m1: "is_max (Num 0.4) (map (sim_of ?f0) [?d])" using sd by (simp add: is_max_def)
  have m2: "is_max (Num 1) (map (sim_of ?f0) [?d, ?p])" using sd sp by (simp add: is_max_def)
  have n1: "[?d] \<noteq> []" and n2: "[?d, ?p] \<noteq> []" by simp_all
  from identifySpeaker_threshold [OF extract_zero_aux n1 m1]
       identifySpeaker_threshold [OF extract_zero_aux n2 m2]
       extract_zero_aux m1 m2 sd sp
  show ?thesis by (simp add: Let_def)
qed

subsection \<open>Learning\<close>

text \<open>
  Claim C5. A \<^verbatim>\<open>learnVoice\<close> call made while learning is enabled, whose audio
  decodes and whose extraction gives \<open>feats\<close>, changes the store at the given speaker
  only: a speaker without a profile gets one with \<open>samples = 1\<close> holding \<open>feats\<close>; an
  existing profile has every feature replaced by \<open>old * 0.7 + new * 0.3\<close> and its sample
  count increased by one.
\<close>

theorem learnVoice_running_average:
  assumes "extractVoiceFeatures True audioData = Inr feats"
  shows "map_of (learnVoice True True (Inr audioData) speakerType prev) =
           (map_of prev)(speakerType \<mapsto>
              (case map_of prev speakerType of
                 None \<Rightarrow> \<lparr>id' = speakerType, name = speakerType, features = feats, samples = 1\<rparr>
               | Some p \<Rightarrow> p\<lparr>features := mixFeatures (features p) feats,
                              samples := samples p + 1\<rparr>))"
  using assms
  by (simp add: learnVoice_def updateProfiles_def update_conv' blend_mix mixFeatures_def Let_def
           split: option.splits)

theorem learnVoice_running_average_witness:
  "extractVoiceFeatures True [Num 0] =
     Inr \<lparr>avgPitch = Num 0, pitchVariance = Num 0, avgIntensity = Num (- 200), formantF1 = Num 500,
          formantF2 = Num 1200, speechRate = Num 0, voiceQuality = Num 0.4\<rparr>
   \<and> map_of (learnVoice True True (Inr [Num 0]) Doctor []) Doctor =
       Some \<lparr>id' = Doctor, name = Doctor,
             features = \<lparr>avgPitch = Num 0, pitchVariance = Num 0, avgIntensity = Num (- 200),
                         formantF1 = Num 500, formantF2 = Num 1200, speechRate = Num 0,
                         voiceQuality = Num 0.4\<rparr>,
             samples = 1\<rparr>
   \<and> map_of (learnVoice True True (Inr [Num 0]) Doctor
        [(Doctor, \<lparr>id' = Doctor, name = Doctor,
                   features = \<lparr>avgPitch = Num 100, pitchVariance = Num 10, avgIntensity = Num (- 20),
                               formantF1 = Num 600, formantF2 = Num 1400, speechRate = Num 2,
                               voiceQuality = Num 0.8\<rparr>,
                   samples = 3\<rparr>)]) Doctor =
       Some \<lparr>id' = Doctor, name = Doctor,
             features = \<lparr>avgPitch = Num 70, pitchVariance = Num 7, avgIntensity = Num (- 74),
                         formantF1 = Num 570, formantF2 = Num 1340, speechRate = Num 1.4,
                         voiceQuality = Num 0.68\<rparr>,
             samples = 4\<rparr>"
  using learnVoice_running_average [OF extract_zero_aux, of Doctor "[]"]
        learnVoice_running_average [OF extract_zero_aux, of Doctor
          "[(Doctor, \<lparr>id' = Doctor, name = Doctor,
                   features = \<lparr>avgPitch = Num 100, pitchVariance = Num 10, avgIntensity = Num (- 20),
                               formantF1 = Num 600, formantF2 = Num 1400, speechRate = Num 2,
                               voiceQuality = Num 0.8\<rparr>,
                   samples = 3\<rparr>)]"]
        extract_zero_aux
  by (simp add: mixFeatures_def mix_def)

section \<open>Properties of the alternation labelling\<close>

subsection \<open>Auxiliary facts\<close>

lemma onresult_dup:
  "snd (transcripts e) \<noteq> [] \<Longrightarrow> finalText e = lastTranscript s \<Longrightarrow>
   onresult L P e s = (s, \<lparr>label = None, emitted = None, learning = None\<rparr>)"
  by (simp add: onresult_def finalText_def Let_def split_beta)

lemma onresult_fresh:
  assumes "snd (transcripts e) \<noteq> []" and "finalText e \<noteq> lastTranscript s"
  shows "speechCount (fst (onresult L P e s)) = speechCount s + 1"
    and "lastTranscript (fst (onresult L P e s)) = finalText e"
    and "finalRef (fst (onresult L P e s)) =
           finalRef s @ getSpeakerPrefix (turn (speechCount s)) P L @ finalText e @ [10]"
    and "label (snd (onresult L P e s)) = Some (turn (speechCount s))"
  using assms
  by (simp_all add: onresult_def finalText_def turn_def Let_def split_beta)












lemma utterance_final: "transcripts (utterance t) = ([], t @ str '' '')"
  by (simp add: transcripts_def utterance_def)





subsection \<open>Alternation\<close>




subsection \<open>Duplicate suppression\<close>

text \<open>
  Claim C6. When the same trimmed final text is submitted twice in a row, the second
  submission is discarded: it leaves the whole recorder state, the utterance counter
  included, as the first one left it, and publishes nothing. The two together append one
  line when the text differs from the text committed before them, and none when the first
  is itself a repetition of the committed text.
\<close>

theorem duplicate_suppression:
  assumes "snd (transcripts e1) \<noteq> []" and "snd (transcripts e2) \<noteq> []"
      and "finalText e2 = finalText e1"
  shows "(let s1 = fst (onresult L P e1 s); r2 = onresult L P e2 s1
          in fst r2 = s1 \<and> label (snd r2) = None \<and> emitted (snd r2) = None
           \<and> (if finalText e1 = lastTranscript s then s1 = s
              else finalRef s1 = finalRef s @ getSpeakerPrefix (turn (speechCount s)) P L
                                   @ finalText e1 @ [10]
                 \<and> speechCount s1 = speechCount s + 1))"
proof (cases "finalText e1 = lastTranscript s")
  case True
  with assms show ?thesis by (simp add: onresult_dup Let_def)
next
  case False
  note f = onresult_fresh [OF assms(1) False, of L P]
  from f(2) assms(3) have "finalText e2 = lastTranscript (fst (onresult L P e1 s))" by simp
  from onresult_dup [OF assms(2) this, of L P] f False show ?thesis by (simp add: Let_def)
qed

theorem duplicate_suppression_witness:
  "snd (transcripts (utterance (str ''hello''))) \<noteq> []
   \<and> snd (transcripts (utterance (str '' hello ''))) \<noteq> []
   \<and> finalText (utterance (str '' hello '')) = finalText (utterance (str ''hello''))
   \<and> finalText (utterance (str ''hello'')) \<noteq> lastTranscript initial
   \<and> finalRef (fst (onresult EN [] (utterance (str '' hello ''))
        (fst (onresult EN [] (utterance (str ''hello'')) initial)))) = str ''Doctor: hello'' @ [10]
   \<and> speechCount (fst (onresult EN [] (utterance (str '' hello ''))
        (fst (onresult EN [] (utterance (str ''hello'')) initial)))) = 1"
proof -
  let ?ea = "utterance (str ''hello'')"
  let ?eb = "utterance (str '' hello '')"
  have t1: "finalText ?ea = str ''hello''" and t2: "finalText ?eb = str ''hello''"
    by (simp_all add: finalText_def utterance_final trim_def str_def WhiteSpace_def)
  have h1: "snd (transcripts ?ea) \<noteq> []" and h2: "snd (transcripts ?eb) \<noteq> []"
    by (simp_all add: utterance_final str_def)
  have h3: "finalText ?eb = finalText ?ea" by (simp add: t1 t2)
  have nl: "finalText ?ea \<noteq> lastTranscript initial" using t1 by (simp add: initial_def str_def)
  have pre: "getSpeakerPrefix Doctor [] EN = str ''Doctor: ''"
    by (simp add: getSpeakerPrefix_def)
  let ?sb = "fst (onresult EN [] ?ea initial)"
  let ?sc = "fst (onresult EN [] ?eb ?sb)"
  from duplicate_suppression [OF h1 h2 h3, of EN "[]" initial] nl
  have same: "?sc = ?sb"
    and one: "finalRef ?sb = finalRef initial @ getSpeakerPrefix (turn (speechCount initial)) [] EN
                               @ finalText ?ea @ [10]"
    and cnt: "speechCount ?sb = speechCount initial + 1"
    unfolding Let_def by simp_all
  have "finalRef initial @ getSpeakerPrefix (turn (speechCount initial)) [] EN @ finalText ?ea @ [10]
      = str ''Doctor: hello'' @ [10]"
    using t1 pre by (simp add: turn_def initial_def str_def)
  with one same have A: "finalRef ?sc = str ''Doctor: hello'' @ [10]" by (simp only:)
  from cnt same have B: "speechCount ?sc = 1" by (simp add: initial_def)
  from h1 h2 h3 nl A B show ?thesis by (intro conjI)
qed

section \<open>Properties of the history and of the diagnosis\<close>

subsection \<open>Auxiliary facts\<close>

lemma accumulated_concat: "fold (\<lambda>chunk acc. acc @ chunk) cs a = a @ concat cs"
  by (induction cs arbitrary: a) auto

lemma loadHistory_Inr: "\<exists>v. loadHistory J w = Inr v"
  by (simp add: loadHistory_def split: sum.splits)

lemma loadHistory_clear:
  "JSON_parse J (str ''[]'') = Inr (JArray []) \<Longrightarrow> loadHistory J (clearHistory w) = Inr (JArray [])"
  by (simp add: loadHistory_def clearHistory_def)

lemma saveHistoryItem_array:
  "loadHistory J w = Inr (JArray xs) \<Longrightarrow>
   saveHistoryItem J item w =
     Inr (w\<lparr>localStorage := (localStorage w)(KEY \<mapsto> JSON_stringify J (JArray (item # xs))),
            historyUpdated := historyUpdated w + 1\<rparr>)"
  by (simp add: saveHistoryItem_def unshift_def)

lemma historyItem_saved: "savedItem P idts json (historyItem P idts json)"
  by (cases "p_language P") (simp_all add: savedItem_def historyItem_def str_def)

lemma saveAndReset_ok:
  assumes "loadHistory J (window v) = Inr (JArray xs)"
  shows "\<exists>v'. saveAndReset J P W json v = (None, v') \<and> persisted J P W xs json v v'
             \<and> diagnoseRequests v' = diagnoseRequests v"
proof -
  let ?item = "historyItem P (stamp W (saves v)) json"
  let ?v' = "snd (saveAndReset J P W json v)"
  from saveHistoryItem_array [OF assms, of ?item] assms
  have s: "saveAndReset J P W json v = (None, ?v')"
    and r: "result ?v' = Some json" "saves ?v' = saves v + 1" "completions ?v' = completions v + 1"
      "\<not> loading ?v'" "historyUpdated (window ?v') = historyUpdated (window v) + 1"
      "diagnoseRequests ?v' = diagnoseRequests v"
    and l: "localStorage (window ?v') =
        (localStorage (window v))(KEY \<mapsto> JSON_stringify J (JArray (?item # xs)))"
    by (simp_all add: saveAndReset_def Let_def)
  from l historyItem_saved [of P "stamp W (saves v)" json]
  have "\<exists>item. savedItem P (stamp W (saves v)) json item
      \<and> localStorage (window ?v') =
          (localStorage (window v))(KEY \<mapsto> JSON_stringify J (JArray (item # xs)))"
    by blast
  with r have "persisted J P W xs json v ?v'" by (simp add: persisted_def)
  with s r(6) show ?thesis by blast
qed

subsection \<open>History\<close>

text \<open>
  Claim C10. \<^verbatim>\<open>loadHistory\<close> never throws: it returns a value for every storage,
  whatever string is stored under the key. Given that the platform parses
  \<^verbatim>\<open>[]\<close> as the empty array, it returns the empty array when the key is absent and
  when the stored string fails to parse.
\<close>

theorem loadHistory_total:
  assumes "JSON_parse J (str ''[]'') = Inr (JArray [])"
  shows "(\<exists>v. loadHistory J w = Inr v)
       \<and> (case localStorage w KEY of
            None \<Rightarrow> loadHistory J w = Inr (JArray [])
          | Some s \<Rightarrow> (\<forall>e. JSON_parse J s = Inl e \<longrightarrow> loadHistory J w = Inr (JArray [])))"
  using assms by (auto simp: loadHistory_def split: sum.splits option.splits)

theorem loadHistory_total_witness:
  "JSON_parse fragmentJSON (str ''[]'') = Inr (JArray [])
   \<and> localStorage emptyBrowser KEY = None
   \<and> loadHistory fragmentJSON emptyBrowser = Inr (JArray [])
   \<and> localStorage (emptyBrowser\<lparr>localStorage := [KEY \<mapsto> str ''{oops'']\<rparr>) KEY = Some (str ''{oops'')
   \<and> JSON_parse fragmentJSON (str ''{oops'') = Inl SyntaxError
   \<and> loadHistory fragmentJSON (emptyBrowser\<lparr>localStorage := [KEY \<mapsto> str ''{oops'']\<rparr>) = Inr (JArray [])"
proof -
  have p: "JSON_parse fragmentJSON (str ''[]'') = Inr (JArray [])"
    by (simp add: fragmentJSON_def)
  have q: "JSON_parse fragmentJSON (str ''{oops'') = Inl SyntaxError"
    by (simp add: fragmentJSON_def diagnosisText_def quoted_def str_def)
  have a: "localStorage emptyBrowser KEY = None" by (simp add: emptyBrowser_def)
  have b: "localStorage (emptyBrowser\<lparr>localStorage := [KEY \<mapsto> str ''{oops'']\<rparr>) KEY = Some (str ''{oops'')"
    by simp
  from loadHistory_total [OF p, of emptyBrowser] a
  have c: "loadHistory fragmentJSON emptyBrowser = Inr (JArray [])" by simp
  from loadHistory_total [OF p, of "emptyBrowser\<lparr>localStorage := [KEY \<mapsto> str ''{oops'']\<rparr>"] b q
  have d: "loadHistory fragmentJSON (emptyBrowser\<lparr>localStorage := [KEY \<mapsto> str ''{oops'']\<rparr>) = Inr (JArray [])"
    by simp
  from p a c b q d show ?thesis by (intro conjI)
qed

text \<open>
  Claim C9. Given that the platform parses \<^verbatim>\<open>[]\<close> as the empty array:
  \<^verbatim>\<open>clearHistory\<close> followed by \<^verbatim>\<open>loadHistory\<close> gives the empty array from every
  state; and when the history loads as the items \<open>xs\<close> and the platform's JSON text of
  the array \<open>item # xs\<close> is not empty and parses back to it, \<^verbatim>\<open>saveHistoryItem\<close>
  followed by \<^verbatim>\<open>loadHistory\<close> gives \<open>item\<close> first and then \<open>xs\<close> in their order.
\<close>

theorem history_clear_append:
  assumes "JSON_parse J (str ''[]'') = Inr (JArray [])"
  shows "loadHistory J (clearHistory w) = Inr (JArray [])
       \<and> (loadHistory J w = Inr (JArray xs) \<longrightarrow>
          JSON_stringify J (JArray (item # xs)) \<noteq> [] \<longrightarrow>
          JSON_parse J (JSON_stringify J (JArray (item # xs))) = Inr (JArray (item # xs)) \<longrightarrow>
          (\<exists>w'. saveHistoryItem J item w = Inr w' \<and> loadHistory J w' = Inr (JArray (item # xs))))"
proof (intro conjI impI)
  show "loadHistory J (clearHistory w) = Inr (JArray [])"
    using assms by (rule loadHistory_clear)
next
  assume l: "loadHistory J w = Inr (JArray xs)"
    and ne: "JSON_stringify J (JArray (item # xs)) \<noteq> []"
    and rt: "JSON_parse J (JSON_stringify J (JArray (item # xs))) = Inr (JArray (item # xs))"
  let ?w' = "w\<lparr>localStorage := (localStorage w)(KEY \<mapsto> JSON_stringify J (JArray (item # xs))),
              historyUpdated := historyUpdated w + 1\<rparr>"
  have "saveHistoryItem J item w = Inr ?w'" using l by (rule saveHistoryItem_array)
  moreover have "loadHistory J ?w' = Inr (JArray (item # xs))"
    using ne rt by (simp add: loadHistory_def)
  ultimately show "\<exists>w'. saveHistoryItem J item w = Inr w' \<and> loadHistory J w' = Inr (JArray (item # xs))"
    by blast
qed

theorem history_clear_append_witness:
  "JSON_parse fragmentJSON (str ''[]'') = Inr (JArray [])
   \<and> loadHistory fragmentJSON (clearHistory (emptyBrowser\<lparr>localStorage := [KEY \<mapsto> str ''[1]'']\<rparr>)) = Inr (JArray [])
   \<and> loadHistory fragmentJSON emptyBrowser = Inr (JArray [])
   \<and> JSON_stringify fragmentJSON (JArray [JNumber (Num 1)]) \<noteq> []
   \<and> JSON_parse fragmentJSON (JSON_stringify fragmentJSON (JArray [JNumber (Num 1)])) = Inr (JArray [JNumber (Num 1)])
   \<and> (\<exists>w'. saveHistoryItem fragmentJSON (JNumber (Num 1)) emptyBrowser = Inr w'
          \<and> loadHistory fragmentJSON w' = Inr (JArray [JNumber (Num 1)]))"
proof -
  have p: "JSON_parse fragmentJSON (str ''[]'') = Inr (JArray [])"
    by (simp add: fragmentJSON_def)
  have l: "loadHistory fragmentJSON emptyBrowser = Inr (JArray [])"
    by (simp add: loadHistory_def emptyBrowser_def fragmentJSON_def)
  have ne: "JSON_stringify fragmentJSON (JArray [JNumber (Num 1)]) \<noteq> []"
    by (simp add: fragmentJSON_def str_def)
  have rt: "JSON_parse fragmentJSON (JSON_stringify fragmentJSON (JArray [JNumber (Num 1)]))
      = Inr (JArray [JNumber (Num 1)])"
    by (simp add: fragmentJSON_def str_def)
  note T = history_clear_append [OF p, of _ "[]" "JNumber (Num 1)"]
  from T [of "emptyBrowser\<lparr>localStorage := [KEY \<mapsto> str ''[1]'']\<rparr>"]
  have c: "loadHistory fragmentJSON (clearHistory (emptyBrowser\<lparr>localStorage := [KEY \<mapsto> str ''[1]'']\<rparr>)) = Inr (JArray [])"
    by blast
  from T [of emptyBrowser] l ne rt
  have s: "\<exists>w'. saveHistoryItem fragmentJSON (JNumber (Num 1)) emptyBrowser = Inr w'
          \<and> loadHistory fragmentJSON w' = Inr (JArray [JNumber (Num 1)])"
    by blast
  from p c l ne rt s show ?thesis by (intro conjI)
qed

subsection \<open>Diagnosis reconciliation\<close>

text \<open>
  Claim C3, as amended. Take a finalize action on a transcript that is not blank, in a
  state whose history loads as an array. If the stream was set up and the text
  accumulated when the timer fires is not empty and is accepted by \<^verbatim>\<open>JSON.parse\<close>,
  whatever the shape of the value (no structure is checked), then no \<^verbatim>\<open>diagnose\<close>
  request is issued and the parsed value is the result shown and persisted. If the
  accumulated text is empty or is rejected by \<^verbatim>\<open>JSON.parse\<close> (or the stream could
  not be set up) and the \<^verbatim>\<open>diagnose\<close> request succeeds, exactly one request is
  issued and its response is the result shown and persisted. In both cases exactly one
  result is saved: one call of \<^verbatim>\<open>saveAndReset\<close>, and one item put in front of the
  stored history, whose \<^verbatim>\<open>result\<close> is that result and whose other fields come
  from the props.
\<close>

theorem finalize_one_result:
  assumes tr: "trim (p_transcript P) \<noteq> []"
      and hist: "loadHistory J (window v) = Inr (JArray xs)"
  shows "(\<forall>parsed. \<not> streamThrows W \<longrightarrow> concat (chunks W) \<noteq> [] \<longrightarrow>
            JSON_parse J (concat (chunks W)) = Inr parsed \<longrightarrow>
            (\<exists>v'. onFinalize J P W v = (None, v') \<and> diagnoseRequests v' = diagnoseRequests v
                 \<and> persisted J P W xs parsed v v'))
       \<and> (\<forall>json. (streamThrows W \<or> concat (chunks W) = []
                  \<or> (\<exists>e. JSON_parse J (concat (chunks W)) = Inl e)) \<longrightarrow>
            response W = Inr json \<longrightarrow>
            (\<exists>v'. onFinalize J P W v = (None, v') \<and> diagnoseRequests v' = diagnoseRequests v + 1
                 \<and> persisted J P W xs json v v'))"
proof -
  let ?v1 = "v\<lparr>loading := True, result := None\<rparr>"
  have fin: "onFinalize J P W v =
      (if streamThrows W then doFallbackRequest J P W ?v1 else onTimeout J P W ?v1)"
    using tr by (simp add: onFinalize_def Let_def)
  have acc: "fold (\<lambda>chunk acc. acc @ chunk) (chunks W) [] = concat (chunks W)"
    by (simp add: accumulated_concat)
  have h1: "loadHistory J (window ?v1) = Inr (JArray xs)" using hist by simp
  have stream: "\<exists>v'. onFinalize J P W v = (None, v') \<and> diagnoseRequests v' = diagnoseRequests v
                 \<and> persisted J P W xs parsed v v'"
    if st: "\<not> streamThrows W" and ne: "concat (chunks W) \<noteq> []"
      and ps: "JSON_parse J (concat (chunks W)) = Inr parsed" for parsed
  proof -
    from saveAndReset_ok [OF h1, of P W parsed] obtain v'
      where s: "saveAndReset J P W parsed ?v1 = (None, v')"
        and p: "persisted J P W xs parsed ?v1 v'"
        and d: "diagnoseRequests v' = diagnoseRequests ?v1" by blast
    from s st ne ps have "onFinalize J P W v = (None, v')"
      by (simp add: fin onTimeout_def acc Let_def)
    moreover from p have "persisted J P W xs parsed v v'" by (simp add: persisted_def)
    ultimately show ?thesis using d by simp
  qed
  have fallback: "\<exists>v'. onFinalize J P W v = (None, v') \<and> diagnoseRequests v' = diagnoseRequests v + 1
                 \<and> persisted J P W xs json v v'"
    if bad: "streamThrows W \<or> concat (chunks W) = [] \<or> (\<exists>e. JSON_parse J (concat (chunks W)) = Inl e)"
      and rs: "response W = Inr json" for json
  proof -
    let ?v2 = "?v1\<lparr>diagnoseRequests := diagnoseRequests ?v1 + 1\<rparr>"
    have h2: "loadHistory J (window ?v2) = Inr (JArray xs)" using hist by simp
    from saveAndReset_ok [OF h2, of P W json] obtain v'
      where s: "saveAndReset J P W json ?v2 = (None, v')"
        and p: "persisted J P W xs json ?v2 v'"
        and d: "diagnoseRequests v' = diagnoseRequests ?v2" by blast
    have "doFallbackRequest J P W ?v1 = (None, v')"
      using s rs by (simp add: doFallbackRequest_def Let_def)
    moreover from bad have "onFinalize J P W v = doFallbackRequest J P W ?v1"
      by (auto simp: fin onTimeout_def acc Let_def)
    ultimately have "onFinalize J P W v = (None, v')" by simp
    moreover from p have "persisted J P W xs json v v'" by (simp add: persisted_def)
    ultimately show ?thesis using d by simp
  qed
  from stream fallback show ?thesis by blast
qed

theorem finalize_one_result_witness:
  "trim (p_transcript exampleProps) \<noteq> []
   \<and> loadHistory fragmentJSON (window exampleView) = Inr (JArray [])
   \<and> \<not> streamThrows (exampleWorld [take 20 diagnosisText, drop 20 diagnosisText])
   \<and> concat (chunks (exampleWorld [take 20 diagnosisText, drop 20 diagnosisText])) \<noteq> []
   \<and> JSON_parse fragmentJSON
        (concat (chunks (exampleWorld [take 20 diagnosisText, drop 20 diagnosisText])))
       = Inr exampleDiagnosis
   \<and> isDiagnosisResponse exampleDiagnosis
   \<and> diagnoseRequests (snd (onFinalize fragmentJSON exampleProps
        (exampleWorld [take 20 diagnosisText, drop 20 diagnosisText]) exampleView)) = 0
   \<and> result (snd (onFinalize fragmentJSON exampleProps
        (exampleWorld [take 20 diagnosisText, drop 20 diagnosisText]) exampleView))
       = Some exampleDiagnosis
   \<and> saves (snd (onFinalize fragmentJSON exampleProps
        (exampleWorld [take 20 diagnosisText, drop 20 diagnosisText]) exampleView)) = 1
   \<and> concat (chunks (exampleWorld [])) = []
   \<and> response (exampleWorld []) = Inr exampleDiagnosis
   \<and> diagnoseRequests (snd (onFinalize fragmentJSON exampleProps (exampleWorld []) exampleView)) = 1
   \<and> result (snd (onFinalize fragmentJSON exampleProps (exampleWorld []) exampleView))
       = Some exampleDiagnosis
   \<and> saves (snd (onFinalize fragmentJSON exampleProps (exampleWorld []) exampleView)) = 1
   \<and> JSON_parse fragmentJSON (concat (chunks (exampleWorld [str ''{oops''])))
       = Inl SyntaxError
   \<and> diagnoseRequests (snd (onFinalize fragmentJSON exampleProps
        (exampleWorld [str ''{oops'']) exampleView)) = 1
   \<and> result (snd (onFinalize fragmentJSON exampleProps
        (exampleWorld [str ''{oops'']) exampleView)) = Some exampleDiagnosis
   \<and> streamThrows ((exampleWorld [])\<lparr>streamThrows := True\<rparr>)
   \<and> diagnoseRequests (snd (onFinalize fragmentJSON exampleProps
        ((exampleWorld [])\<lparr>streamThrows := True\<rparr>) exampleView)) = 1"
proof -
  let ?Wa = "exampleWorld [take 20 diagnosisText, drop 20 diagnosisText]"
  let ?Wb = "exampleWorld []"
  let ?Wc = "exampleWorld [str ''{oops'']"
  let ?Wd = "(exampleWorld [])\<lparr>streamThrows := True\<rparr>"
  have tr: "trim (p_transcript exampleProps) \<noteq> []"
    by (simp add: exampleProps_def trim_def str_def WhiteSpace_def)
  have st: "\<not> streamThrows ?Wa" by (simp add: exampleWorld_def)
  have hist: "loadHistory fragmentJSON (window exampleView) = Inr (JArray [])"
    by (simp add: loadHistory_def exampleView_def emptyBrowser_def fragmentJSON_def)
  have cat: "concat (chunks ?Wa) = diagnosisText" by (simp add: exampleWorld_def)
  have dn: "diagnosisText \<noteq> []" by (simp add: diagnosisText_def str_def)
  have dp: "JSON_parse fragmentJSON diagnosisText = Inr exampleDiagnosis"
    by (simp add: fragmentJSON_def diagnosisText_def quoted_def str_def)
  have c1: "concat (chunks ?Wa) \<noteq> []" using dn by (simp add: cat)
  have p1: "JSON_parse fragmentJSON (concat (chunks ?Wa)) = Inr exampleDiagnosis"
    using dp by (simp add: cat)
  have shape: "isDiagnosisResponse exampleDiagnosis" by (simp add: exampleDiagnosis_def str_def)
  have c2: "concat (chunks ?Wb) = []" by (simp add: exampleWorld_def)
  have rs: "response ?Wb = Inr exampleDiagnosis" "response ?Wc = Inr exampleDiagnosis"
    "response ?Wd = Inr exampleDiagnosis"
    by (simp_all add: exampleWorld_def)
  have p3: "JSON_parse fragmentJSON (concat (chunks ?Wc)) = Inl SyntaxError"
    by (simp add: exampleWorld_def fragmentJSON_def diagnosisText_def quoted_def str_def)
  have t4: "streamThrows ?Wd" by simp
  have v0: "diagnoseRequests exampleView = 0" "saves exampleView = 0"
    by (simp_all add: exampleView_def)
  note T = finalize_one_result [OF tr hist]
  from T [of ?Wa] st c1 p1 obtain va
    where "onFinalize fragmentJSON exampleProps ?Wa exampleView = (None, va)"
      and "diagnoseRequests va = diagnoseRequests exampleView"
      and "persisted fragmentJSON exampleProps ?Wa [] exampleDiagnosis exampleView va" by blast
  with v0 have r1: "diagnoseRequests (snd (onFinalize fragmentJSON exampleProps ?Wa exampleView)) = 0"
    "result (snd (onFinalize fragmentJSON exampleProps ?Wa exampleView)) = Some exampleDiagnosis"
    "saves (snd (onFinalize fragmentJSON exampleProps ?Wa exampleView)) = 1"
    by (simp_all add: persisted_def)
  from T [of ?Wb] c2 rs(1) obtain vb
    where "onFinalize fragmentJSON exampleProps ?Wb exampleView = (None, vb)"
      and "diagnoseRequests vb = diagnoseRequests exampleView + 1"
      and "persisted fragmentJSON exampleProps ?Wb [] exampleDiagnosis exampleView vb" by blast
  with v0 have r2: "diagnoseRequests (snd (onFinalize fragmentJSON exampleProps ?Wb exampleView)) = 1"
    "result (snd (onFinalize fragmentJSON exampleProps ?Wb exampleView)) = Some exampleDiagnosis"
    "saves (snd (onFinalize fragmentJSON exampleProps ?Wb exampleView)) = 1"
    by (simp_all add: persisted_def)
  from T [of ?Wc] p3 rs(2) obtain vc
    where "onFinalize fragmentJSON exampleProps ?Wc exampleView = (None, vc)"
      and "diagnoseRequests vc = diagnoseRequests exampleView + 1"
      and "persisted fragmentJSON exampleProps ?Wc [] exampleDiagnosis exampleView vc" by blast
  with v0 have r3: "diagnoseRequests (snd (onFinalize fragmentJSON exampleProps ?Wc exampleView)) = 1"
    "result (snd (onFinalize fragmentJSON exampleProps ?Wc exampleView)) = Some exampleDiagnosis"
    by (simp_all add: persisted_def)
  from T [of ?Wd] t4 rs(3) obtain vd
    where "onFinalize fragmentJSON exampleProps ?Wd exampleView = (None, vd)"
      and "diagnoseRequests vd = diagnoseRequests exampleView + 1" by blast
  with v0 have r4: "diagnoseRequests (snd (onFinalize fragmentJSON exampleProps ?Wd exampleView)) = 1"
    by simp
  from tr hist st c1 p1 shape r1 c2 rs(1) r2 p3 r3 t4 r4
  show ?thesis by (intro conjI)
qed

text \<open>
  Claim C3 as stated fails. A transcript of one space is not empty, yet the action
  returns at once: no request, nothing persisted. And the buffer \<^verbatim>\<open>null\<close> does not
  parse as a structured diagnosis, yet no fallback request is issued: \<^verbatim>\<open>null\<close> is
  the result shown and the result saved.
\<close>

theorem unstructured_buffer_persisted:
  "p_transcript (exampleProps\<lparr>p_transcript := str '' ''\<rparr>) \<noteq> []
   \<and> onFinalize fragmentJSON (exampleProps\<lparr>p_transcript := str '' ''\<rparr>) (exampleWorld [])
        exampleView = (None, exampleView)
   \<and> trim (p_transcript exampleProps) \<noteq> []
   \<and> \<not> streamThrows (exampleWorld [str ''null''])
   \<and> JSON_parse fragmentJSON (concat (chunks (exampleWorld [str ''null''])) ) = Inr JNull
   \<and> \<not> isDiagnosisResponse JNull
   \<and> diagnoseRequests (snd (onFinalize fragmentJSON exampleProps
        (exampleWorld [str ''null'']) exampleView)) = 0
   \<and> result (snd (onFinalize fragmentJSON exampleProps
        (exampleWorld [str ''null'']) exampleView)) = Some JNull
   \<and> saves (snd (onFinalize fragmentJSON exampleProps
        (exampleWorld [str ''null'']) exampleView)) = 1"
proof -
  let ?W = "exampleWorld [str ''null'']"
  let ?v1 = "exampleView\<lparr>loading := True, result := None\<rparr>"
  have tr: "trim (p_transcript exampleProps) \<noteq> []"
    by (simp add: exampleProps_def trim_def str_def WhiteSpace_def)
  have st: "\<not> streamThrows ?W" by (simp add: exampleWorld_def)
  have cat: "fold (\<lambda>chunk acc. acc @ chunk) (chunks ?W) [] = str ''null''"
    by (simp add: exampleWorld_def)
  have ne: "str ''null'' \<noteq> []" by (simp add: str_def)
  have ps: "JSON_parse fragmentJSON (str ''null'') = Inr JNull"
    by (simp add: fragmentJSON_def str_def)
  have ps': "JSON_parse fragmentJSON (concat (chunks ?W)) = Inr JNull"
    using ps by (simp add: exampleWorld_def)
  have hist: "loadHistory fragmentJSON (window ?v1) = Inr (JArray [])"
    by (simp add: loadHistory_def exampleView_def emptyBrowser_def fragmentJSON_def)
  let ?item = "historyItem exampleProps (stamp ?W (saves ?v1)) JNull"
  from saveHistoryItem_array [OF hist, of ?item]
  have sv: "fst (saveAndReset fragmentJSON exampleProps ?W JNull ?v1) = None"
    "result (snd (saveAndReset fragmentJSON exampleProps ?W JNull ?v1)) = Some JNull"
    "diagnoseRequests (snd (saveAndReset fragmentJSON exampleProps ?W JNull ?v1)) = 0"
    "saves (snd (saveAndReset fragmentJSON exampleProps ?W JNull ?v1)) = 1"
    by (simp_all add: saveAndReset_def Let_def exampleView_def)
  have fin: "onFinalize fragmentJSON exampleProps ?W exampleView
      = onTimeout fragmentJSON exampleProps ?W ?v1"
    using tr st by (simp add: onFinalize_def Let_def)
  have "onTimeout fragmentJSON exampleProps ?W ?v1
      = (None, snd (saveAndReset fragmentJSON exampleProps ?W JNull ?v1))"
    using sv(1) ne ps
    by (cases "saveAndReset fragmentJSON exampleProps ?W JNull ?v1")
       (simp add: onTimeout_def cat Let_def)
  with fin sv have r: "diagnoseRequests (snd (onFinalize fragmentJSON exampleProps ?W exampleView)) = 0"
    "result (snd (onFinalize fragmentJSON exampleProps ?W exampleView)) = Some JNull"
    "saves (snd (onFinalize fragmentJSON exampleProps ?W exampleView)) = 1"
    by simp_all
  have ns: "\<not> isDiagnosisResponse JNull" by simp
  have b1: "p_transcript (exampleProps\<lparr>p_transcript := str '' ''\<rparr>) \<noteq> []"
    by (simp add: str_def)
  have b2: "onFinalize fragmentJSON (exampleProps\<lparr>p_transcript := str '' ''\<rparr>) (exampleWorld [])
      exampleView = (None, exampleView)"
    by (simp add: onFinalize_def trim_def str_def WhiteSpace_def)
  from b1 b2 tr st ps' ns r show ?thesis by (intro conjI)
qed

end
